theory Spec2Isabelle
  imports Complex_Main
begin

section \<open>JavaScript values\<close>

text \<open>
  A JavaScript string is a list of code units; one \<^typ>\<open>char\<close> stands for one code unit
  below 256. An optional property (\<open>x?: T\<close>, or a value that may be \<open>undefined\<close>) is an
  \<^typ>\<open>'a option\<close>.
\<close>

definition js_whitespace :: "char \<Rightarrow> bool" where
  \<comment> \<open>the white space and line terminators of ECMAScript below 256\<close>
  "js_whitespace c = ((of_char c :: nat) \<in> {9, 10, 11, 12, 13, 32, 160})"

definition trim :: "string \<Rightarrow> string" where
  \<comment> \<open>\<open>String.prototype.trim\<close>\<close>
  "trim s = rev (dropWhile js_whitespace (rev (dropWhile js_whitespace s)))"

definition str_or :: "string option \<Rightarrow> string \<Rightarrow> string" where
  \<comment> \<open>\<open>a || d\<close> for a string \<open>a\<close> that may be undefined: the empty string is falsy\<close>
  "str_or a d = (case a of None \<Rightarrow> d | Some s \<Rightarrow> if s = [] then d else s)"

definition num_or :: "'a::zero option \<Rightarrow> 'a \<Rightarrow> 'a" where
  \<comment> \<open>\<open>a || d\<close> for a number \<open>a\<close> that may be undefined: zero is falsy\<close>
  "num_or a d = (case a of None \<Rightarrow> d | Some n \<Rightarrow> if n = 0 then d else n)"

definition truthy :: "string option \<Rightarrow> bool" where
  \<comment> \<open>the truth value of a string that may be undefined\<close>
  "truthy a = (case a of None \<Rightarrow> False | Some s \<Rightarrow> s \<noteq> [])"

fun show_nat :: "nat \<Rightarrow> string" where
  \<comment> \<open>a number inside a template literal: its decimal digits\<close>
  "show_nat n =
     (if n < 10 then [char_of (48 + n)]
      else show_nat (n div 10) @ [char_of (48 + n mod 10)])"

declare show_nat.simps [simp del]

section \<open>The message model (\<open>@google/genai\<close> types as the code reads them)\<close>

record part =
  part_text :: "string option"  \<comment> \<open>\<open>text?: string\<close>; a part of another kind has none\<close>

record content =
  role :: "string option"
  parts :: "part list option"

datatype finish_reason = STOP

record candidate =
  cand_content :: content
  finishReason :: finish_reason
  cand_index :: "nat option"
  safetyRatings :: "unit list"

record usage_metadata =
  promptTokenCount :: int
  candidatesTokenCount :: int
  totalTokenCount :: int

record generate_content_response =
  candidates :: "candidate list option"
  usageMetadata :: "usage_metadata option"
  promptFeedback :: "unit list option"  \<comment> \<open>\<open>{ safetyRatings: [] }\<close> when set\<close>

definition new_GenerateContentResponse :: generate_content_response where
  \<comment> \<open>\<open>new GenerateContentResponse()\<close>: every field undefined\<close>
  "new_GenerateContentResponse =
     \<lparr>candidates = None, usageMetadata = None, promptFeedback = None\<rparr>"

section \<open>The DeepSeek wire format and the transport\<close>

record message =
  msg_role :: "string option"
  msg_content :: string

record ds_message =
  message_content :: "string option"

record ds_choice =
  choice_message :: "ds_message option"

record ds_usage =
  prompt_tokens :: "int option"
  completion_tokens :: "int option"
  total_tokens :: "int option"

record ds_response =
  choices :: "ds_choice list option"
  usage :: "ds_usage option"

text \<open>
  The caller's \<open>AbortSignal\<close>, by the moment it fires relative to the one network call of a
  request: before the call is issued, while it is in flight, or after the response has
  arrived (the stream object exists, the consumer has not pulled from it yet).
\<close>

datatype abort_signal =
  NotAborted | AbortedBeforeCall | AbortedDuringCall | AbortedAfterResponse

record request_body =
  body_model :: string
  body_messages :: "message list"
  body_stream :: bool
  body_temperature :: "real option"
  body_top_p :: "real option"
  body_max_tokens :: "real option"

record http_request =
  url :: string
  body :: request_body
  authorization :: string
  signal :: "abort_signal option"

record error_response =
  status :: nat
  statusText :: string
  data_error_message :: "string option"  \<comment> \<open>\<open>error.response.data?.error?.message\<close>\<close>

datatype axios_error =
  ResponseError error_response  \<comment> \<open>a non-2xx answer: \<open>error.response\<close> is set\<close>
  | NoResponse string           \<comment> \<open>network failure: no \<open>error.response\<close>\<close>
  | Canceled                    \<comment> \<open>the signal aborted the request\<close>

datatype thrown =
  JsError string          \<comment> \<open>\<open>new Error(message)\<close>\<close>
  | Rethrown axios_error  \<comment> \<open>\<open>throw error\<close> of a caught axios error\<close>
  | TypeError             \<comment> \<open>a property read on \<open>undefined\<close>\<close>

text \<open>
  The backend answers a request body and an authorization header with an error or with
  \<open>response.data\<close>, the parsed body of a 2xx answer: an object, or \<open>None\<close> when the body is
  \<open>null\<close>. Token counts are the numbers of the parsed body, taken as integers.
\<close>

type_synonym backend = "request_body \<Rightarrow> string \<Rightarrow> axios_error + ds_response option"

definition DEEPSEEK_API_URL :: string where
  "DEEPSEEK_API_URL = ''https://api.deepseek.com/v1/chat/completions''"

definition signal_aborts_call :: "abort_signal option \<Rightarrow> bool" where
  "signal_aborts_call sg = (sg = Some AbortedBeforeCall \<or> sg = Some AbortedDuringCall)"

definition axios_post :: "backend \<Rightarrow> http_request \<Rightarrow> axios_error + ds_response option" where
  \<comment> \<open>\<open>axios.post(url, body, {headers, signal})\<close>: a signal that is aborted before the
      response arrives rejects the call; otherwise the backend answers the body and the
      authorization header\<close>
  "axios_post be rq =
     (if signal_aborts_call (signal rq) then Inl Canceled
      else be (body rq) (authorization rq))"

definition auth_failed_message :: "string option \<Rightarrow> string" where
  \<comment> \<open>the message of the 403 branch; the argument is \<open>process.env.DEEPSEEK_API_KEY\<close>\<close>
  "auth_failed_message env =
     ''DeepSeek API authentication failed. '' @
     ''Environment variable DEEPSEEK_API_KEY: '' @
     (if truthy env then ''SET'' else ''NOT SET'') @ ''. '' @
     ''Please check your API key.''"

section \<open>\<open>DeepSeekClient\<close>\<close>

record deepseek_client =
  apiKey :: string
  client_model :: string
  providers_json :: string  \<comment> \<open>\<open>JSON.stringify(this.config.getProviders(), null, 2)\<close>\<close>

record app_config =
  providers_deepseek_apiKey :: "string option"
    \<comment> \<open>\<open>config.getProviders()?.deepseek?.apiKey\<close>, the stored key\<close>
  providers_as_json :: string
    \<comment> \<open>\<open>JSON.stringify(config.getProviders(), null, 2)\<close>\<close>

definition new_DeepSeekClient :: "app_config \<Rightarrow> deepseek_client" where
  \<comment> \<open>the constructor: the key comes from the stored configuration, never from the
      environment\<close>
  "new_DeepSeekClient cfg =
     \<lparr>apiKey = str_or (providers_deepseek_apiKey cfg) [],
      client_model = ''deepseek-chat'',
      providers_json = providers_as_json cfg\<rparr>"

definition convertTurnsToMessages :: "'turn list \<Rightarrow> message list" where
  "convertTurnsToMessages history =
     [] @ [\<lparr>msg_role = Some ''user'', msg_content = ''Hello, how can you help me?''\<rparr>]"

definition first_choice_content :: "ds_choice list \<Rightarrow> string option" where
  \<comment> \<open>\<open>choices[0]?.message?.content\<close>\<close>
  "first_choice_content cs =
     (case cs of [] \<Rightarrow> None
      | c # _ \<Rightarrow> (case choice_message c of None \<Rightarrow> None | Some m \<Rightarrow> message_content m))"

definition usage_of :: "ds_response \<Rightarrow> usage_metadata" where
  \<comment> \<open>the three \<open>deepseekResponse.usage?.x || 0\<close> reads\<close>
  "usage_of r =
     \<lparr>promptTokenCount =
        num_or (case usage r of None \<Rightarrow> None | Some u \<Rightarrow> prompt_tokens u) 0,
      candidatesTokenCount =
        num_or (case usage r of None \<Rightarrow> None | Some u \<Rightarrow> completion_tokens u) 0,
      totalTokenCount =
        num_or (case usage r of None \<Rightarrow> None | Some u \<Rightarrow> total_tokens u) 0\<rparr>"

definition gemini_response :: "ds_response \<Rightarrow> generate_content_response" where
  \<comment> \<open>the body of \<open>convertDeepSeekResponseToGeminiFormat\<close> for a body that is an object\<close>
  "gemini_response deepseekResponse =
     (let content =
        str_or (case choices deepseekResponse of None \<Rightarrow> None
                | Some cs \<Rightarrow> first_choice_content cs) ''''
      in new_GenerateContentResponse
         \<lparr>candidates :=
            Some [\<lparr>cand_content = \<lparr>role = Some ''model'', parts = Some [\<lparr>part_text = Some content\<rparr>]\<rparr>,
                   finishReason = STOP, cand_index = Some 0, safetyRatings = []\<rparr>],
          usageMetadata := Some (usage_of deepseekResponse),
          promptFeedback := Some []\<rparr>)"

definition convertDeepSeekResponseToGeminiFormat ::
  "ds_response option \<Rightarrow> thrown + generate_content_response" where
  \<comment> \<open>reading \<open>deepseekResponse.choices\<close> of a \<open>null\<close> body throws\<close>
  "convertDeepSeekResponseToGeminiFormat deepseekResponse =
     (case deepseekResponse of
        None \<Rightarrow> Inl TypeError
      | Some d \<Rightarrow> Inr (gemini_response d))"

definition not_configured_message :: "string option \<Rightarrow> string \<Rightarrow> string" where
  "not_configured_message envKey configProviders =
     ''DEEPSEEK_API_KEY is not configured.'' @ [CHR 0x0A] @
     ''Environment variable DEEPSEEK_API_KEY: '' @
     (if truthy envKey then ''SET'' else ''NOT SET'') @ [CHR 0x0A] @
     ''Config providers: '' @ configProviders @ [CHR 0x0A] @
     ''Please set the DEEPSEEK_API_KEY environment variable.''"

definition generateContent_request :: "deepseek_client \<Rightarrow> 'turn list \<Rightarrow> http_request" where
  \<comment> \<open>the arguments of \<open>axios.post\<close> in \<open>generateContent\<close>\<close>
  "generateContent_request c history =
     \<lparr>url = DEEPSEEK_API_URL,
      body = \<lparr>body_model = ''deepseek-chat'',
               body_messages = convertTurnsToMessages history,
               body_stream = False,
               body_temperature = None, body_top_p = None, body_max_tokens = None\<rparr>,
      authorization = ''Bearer '' @ apiKey c,
      signal = None\<rparr>"

definition generateContent ::
  "backend \<Rightarrow> string option \<Rightarrow> deepseek_client \<Rightarrow> 'turn list
     \<Rightarrow> thrown + generate_content_response" where
  "generateContent be env c history =
     (if apiKey c = [] then Inl (JsError (not_configured_message env (providers_json c)))
      else
        (case axios_post be (generateContent_request c history) of
           Inr data \<Rightarrow> convertDeepSeekResponseToGeminiFormat data
         | Inl err \<Rightarrow>
             (case err of
                ResponseError rs \<Rightarrow>
                  Inl (JsError (''API Error: '' @ str_or (data_error_message rs) (statusText rs) @
                     '' (Status: '' @
                     (if status rs = 403 then ''Forbidden'' else show_nat (status rs)) @ '')''))
              | _ \<Rightarrow> Inl (Rethrown err))))"

subsection \<open>\<open>generateContentWithSystemPrompt\<close>\<close>

datatype part_union = PUString string | PUPart part

datatype system_instruction =
  SIString string | SIArray "part_union list" | SIContent content | SIPart part

datatype content_item =
  CIString string | CIArray "part_union list" | CIContent content | CIPart part

datatype content_list_union =
  ContentsArray "content_item list"
  | ContentsString string | ContentsContent content | ContentsPart part

record generation_config =
  systemInstruction :: "system_instruction option"
  temperature :: "real option"
  topP :: "real option"
  maxOutputTokens :: "real option"
  abortSignal :: "abort_signal option"

record generate_content_parameters =
  req_model :: string
  contents :: "content_list_union option"
  config :: "generation_config option"

definition parts_text :: "part list \<Rightarrow> string" where
  \<comment> \<open>\<open>parts.map(part => part.text || '').join('')\<close>\<close>
  "parts_text ps = concat (map (\<lambda>p. str_or (part_text p) []) ps)"

definition systemContent :: "system_instruction \<Rightarrow> string" where
  "systemContent si =
     (case si of
        SIString s \<Rightarrow> s
      | SIArray ps \<Rightarrow>
          concat (map (\<lambda>p. case p of PUString s \<Rightarrow> s
                                | PUPart q \<Rightarrow> str_or (part_text q) []) ps)
      | SIContent c \<Rightarrow> parts_text (case parts c of None \<Rightarrow> [] | Some ps \<Rightarrow> ps)
      | SIPart p \<Rightarrow> str_or (part_text p) [])"

definition system_messages :: "generation_config option \<Rightarrow> message list" where
  \<comment> \<open>the block under \<open>if (req.config?.systemInstruction)\<close>; an empty string is falsy\<close>
  "system_messages cfg =
     (case (case cfg of None \<Rightarrow> None | Some g \<Rightarrow> systemInstruction g) of
        None \<Rightarrow> []
      | Some si \<Rightarrow>
          if si = SIString [] then []
          else if trim (systemContent si) \<noteq> []
          then [\<lparr>msg_role = Some ''system'', msg_content = systemContent si\<rparr>]
          else [])"

definition contentsArray :: "content_list_union option \<Rightarrow> content_item list" where
  \<comment> \<open>\<open>if (req.contents)\<close>, then \<open>Array.isArray(req.contents) ? req.contents : [req.contents]\<close>\<close>
  "contentsArray cs =
     (case cs of
        None \<Rightarrow> []
      | Some (ContentsArray items) \<Rightarrow> items
      | Some (ContentsString s) \<Rightarrow> (if s = [] then [] else [CIString s])
      | Some (ContentsContent c) \<Rightarrow> [CIContent c]
      | Some (ContentsPart p) \<Rightarrow> [CIPart p])"

definition item_role :: "content_item \<Rightarrow> string option" where
  \<comment> \<open>\<open>content.role\<close> of the normalised item (an object without \<open>parts\<close> is wrapped as a
      part of a user turn; it has no text either way)\<close>
  "item_role item = (case item of CIContent c \<Rightarrow> role c | _ \<Rightarrow> Some ''user'')"

definition item_text :: "content_item \<Rightarrow> string" where
  \<comment> \<open>the flattened text of the normalised item; a string inside a nested array has no
      \<open>text\<close> property\<close>
  "item_text item =
     (case item of
        CIString s \<Rightarrow> parts_text [\<lparr>part_text = Some s\<rparr>]
      | CIArray ps \<Rightarrow>
          concat (map (\<lambda>p. case p of PUString s \<Rightarrow> []
                                | PUPart q \<Rightarrow> str_or (part_text q) []) ps)
      | CIContent c \<Rightarrow> parts_text (case parts c of None \<Rightarrow> [] | Some ps \<Rightarrow> ps)
      | CIPart p \<Rightarrow> parts_text [p])"

definition item_messages :: "content_item \<Rightarrow> message list" where
  \<comment> \<open>one round of the loop over \<open>contentsArray\<close>\<close>
  "item_messages item =
     (let role = (if item_role item = Some ''model'' then Some ''assistant'' else item_role item);
          text = item_text item
      in if trim text \<noteq> [] then [\<lparr>msg_role = role, msg_content = text\<rparr>] else [])"

definition withSystemPrompt_request ::
  "deepseek_client \<Rightarrow> generate_content_parameters \<Rightarrow> http_request" where
  \<comment> \<open>the arguments of \<open>axios.post\<close> in \<open>generateContentWithSystemPrompt\<close>\<close>
  "withSystemPrompt_request c req =
     \<lparr>url = DEEPSEEK_API_URL,
      body = \<lparr>body_model = ''deepseek-chat'',
               body_messages =
                 system_messages (config req) @
                 concat (map item_messages (contentsArray (contents req))),
               body_stream = False,
               body_temperature =
                 Some (num_or (case config req of None \<Rightarrow> None | Some g \<Rightarrow> temperature g) 0),
               body_top_p =
                 Some (num_or (case config req of None \<Rightarrow> None | Some g \<Rightarrow> topP g) 1),
               body_max_tokens =
                 Some (num_or (case config req of None \<Rightarrow> None | Some g \<Rightarrow> maxOutputTokens g) 8192)\<rparr>,
      authorization = ''Bearer '' @ apiKey c,
      signal = (case config req of None \<Rightarrow> None | Some g \<Rightarrow> abortSignal g)\<rparr>"

definition generateContentWithSystemPrompt ::
  "backend \<Rightarrow> string option \<Rightarrow> deepseek_client \<Rightarrow> generate_content_parameters
     \<Rightarrow> thrown + generate_content_response" where
  "generateContentWithSystemPrompt be env c req =
     (case axios_post be (withSystemPrompt_request c req) of
        Inr data \<Rightarrow> convertDeepSeekResponseToGeminiFormat data
      | Inl err \<Rightarrow>
          (case err of
             ResponseError rs \<Rightarrow>
               if status rs = 403 then Inl (JsError (auth_failed_message env))
               else Inl (JsError (''DeepSeek API Error: '' @
                      str_or (data_error_message rs) (statusText rs) @
                      '' (Status: '' @ show_nat (status rs) @ '')''))
           | _ \<Rightarrow> Inl (Rethrown err)))"

section \<open>\<open>LLMProviderAdapter\<close>\<close>

text \<open>
  An \<open>LLMProvider\<close> has \<open>generateContent\<close>; the adapter probes it for
  \<open>generateContentWithSystemPrompt\<close>, which \<open>DeepSeekClient\<close> has. A stream is the list of
  the items its generator yields before it completes.
\<close>

record 'turn llm_provider =
  provider_generateContent :: "'turn list \<Rightarrow> thrown + generate_content_response"
  provider_generateContentWithSystemPrompt ::
    "(generate_content_parameters \<Rightarrow> thrown + generate_content_response) option"

definition DeepSeekClient_provider ::
  "backend \<Rightarrow> string option \<Rightarrow> deepseek_client \<Rightarrow> 'turn llm_provider" where
  "DeepSeekClient_provider be env c =
     \<lparr>provider_generateContent = generateContent be env c,
      provider_generateContentWithSystemPrompt = Some (generateContentWithSystemPrompt be env c)\<rparr>"

definition adapter_generateContent ::
  "'turn llm_provider \<Rightarrow> generate_content_parameters \<Rightarrow> thrown + generate_content_response" where
  "adapter_generateContent p req =
     (case provider_generateContentWithSystemPrompt p of
        Some f \<Rightarrow> f req
      | None \<Rightarrow> provider_generateContent p [])"

definition adapter_generateContentStream ::
  "'turn llm_provider \<Rightarrow> generate_content_parameters
     \<Rightarrow> thrown + generate_content_response list" where
  "adapter_generateContentStream p req =
     (case provider_generateContentWithSystemPrompt p of
        Some f \<Rightarrow> (case f req of Inl e \<Rightarrow> Inl e | Inr response \<Rightarrow> Inr [response])
      | None \<Rightarrow>
          (case adapter_generateContent p req of
             Inl e \<Rightarrow> Inl e | Inr response \<Rightarrow> Inr [response]))"

section \<open>Arrays as shared objects\<close>

text \<open>
  A JavaScript array is an object: two variables may hold the same array, and a \<open>push\<close>
  through one is seen through the other. The store holds the arrays allocated so far; an
  array's address is its position in the store.
\<close>

type_synonym addr = nat
type_synonym 'a store = "'a list list"

definition alloc :: "'a list \<Rightarrow> 'a store \<Rightarrow> addr \<times> 'a store" where
  \<comment> \<open>a new array with the given elements (\<open>[]\<close>, \<open>[...xs]\<close>)\<close>
  "alloc xs st = (length st, st @ [xs])"

definition arr :: "'a store \<Rightarrow> addr \<Rightarrow> 'a list" where
  "arr st a = st ! a"

definition arr_write :: "addr \<Rightarrow> 'a list \<Rightarrow> 'a store \<Rightarrow> 'a store" where
  \<comment> \<open>any in-place mutation of the array at \<open>a\<close>, by the elements it leaves there\<close>
  "arr_write a xs st = st[a := xs]"

definition arr_push :: "addr \<Rightarrow> 'a \<Rightarrow> 'a store \<Rightarrow> 'a store" where
  \<comment> \<open>\<open>a.push(x)\<close>\<close>
  "arr_push a x st = arr_write a (arr st a @ [x]) st"

definition arr_pop :: "addr \<Rightarrow> 'a store \<Rightarrow> 'a store" where
  \<comment> \<open>\<open>a.pop()\<close>\<close>
  "arr_pop a st = arr_write a (butlast (arr st a)) st"

definition arr_set :: "addr \<Rightarrow> nat \<Rightarrow> 'a \<Rightarrow> 'a store \<Rightarrow> 'a store" where
  \<comment> \<open>\<open>a[i] = x\<close> for an index inside the array\<close>
  "arr_set a i x st = arr_write a ((arr st a)[i := x]) st"

section \<open>\<open>DeepSeekChat\<close>\<close>

record deepseek_chat =
  history :: addr
  systemPrompt :: string
  chat_apiKey :: string
  chat_model :: string

definition new_DeepSeekChat ::
  "string \<Rightarrow> string \<Rightarrow> string option \<Rightarrow> content store \<Rightarrow> deepseek_chat \<times> content store" where
  "new_DeepSeekChat key model sp st =
     (case alloc [] st of
        (a, st') \<Rightarrow>
          (\<lparr>history = a, systemPrompt = str_or sp [], chat_apiKey = key, chat_model = model\<rparr>,
           st'))"

definition addHistory :: "deepseek_chat \<Rightarrow> content \<Rightarrow> content store \<Rightarrow> content store" where
  "addHistory chat c st = arr_push (history chat) c st"

definition DeepSeekChat_getHistory :: "deepseek_chat \<Rightarrow> content store \<Rightarrow> addr \<times> content store" where
  \<comment> \<open>\<open>return [...this.history]\<close>: the address of a new array\<close>
  "DeepSeekChat_getHistory chat st = alloc (arr st (history chat)) st"

definition setHistory ::
  "deepseek_chat \<Rightarrow> addr \<Rightarrow> content store \<Rightarrow> deepseek_chat \<times> content store" where
  \<comment> \<open>\<open>this.history = [...history]\<close>\<close>
  "setHistory chat h st =
     (case alloc (arr st h) st of (a, st') \<Rightarrow> (chat\<lparr>history := a\<rparr>, st'))"

definition startChat ::
  "deepseek_client \<Rightarrow> string \<Rightarrow> content list \<Rightarrow> content store
     \<Rightarrow> deepseek_chat \<times> content store" where
  \<comment> \<open>\<open>DeepSeekClient.startChat\<close>; the second argument is \<open>getCoreSystemPrompt(userMemory)\<close>\<close>
  "startChat c corePrompt extraHistory st =
     (case new_DeepSeekChat (apiKey c) (client_model c) (Some corePrompt) st of
        (chat, st') \<Rightarrow> (chat, foldl (\<lambda>s content. addHistory chat content s) st' extraHistory))"

datatype message_param = MsgString string | MsgParts "part list" | MsgPart part

record send_params =
  param_message :: message_param
  param_abortSignal :: "abort_signal option"  \<comment> \<open>\<open>params.config?.abortSignal\<close>\<close>

definition messageText :: "message_param \<Rightarrow> string" where
  "messageText m =
     (case m of
        MsgString s \<Rightarrow> s
      | MsgParts ps \<Rightarrow>
          concat (map (\<lambda>p. case part_text p of None \<Rightarrow> [] | Some t \<Rightarrow> t) ps)
      | MsgPart p \<Rightarrow> str_or (part_text p) [])"

definition user_turn :: "string \<Rightarrow> content" where
  "user_turn t = \<lparr>role = Some ''user'', parts = Some [\<lparr>part_text = Some t\<rparr>]\<rparr>"

definition model_turn :: "string \<Rightarrow> content" where
  "model_turn t = \<lparr>role = Some ''model'', parts = Some [\<lparr>part_text = Some t\<rparr>]\<rparr>"

definition history_message :: "content \<Rightarrow> message list" where
  \<comment> \<open>one round of \<open>this.history.forEach\<close>\<close>
  "history_message c =
     (let r = (if role c = Some ''model'' then ''assistant'' else str_or (role c) ''user'');
          t = parts_text (case parts c of None \<Rightarrow> [] | Some ps \<Rightarrow> ps)
      in if trim t \<noteq> [] then [\<lparr>msg_role = Some r, msg_content = t\<rparr>] else [])"

definition chat_messages :: "string \<Rightarrow> content list \<Rightarrow> message list" where
  "chat_messages sp h =
     (if trim sp \<noteq> [] then [\<lparr>msg_role = Some ''system'', msg_content = sp\<rparr>] else []) @
     concat (map history_message h)"

definition sendMessageStream_request ::
  "deepseek_chat \<Rightarrow> send_params \<Rightarrow> content list \<Rightarrow> http_request" where
  \<comment> \<open>the arguments of \<open>axios.post\<close> in \<open>sendMessageStream\<close>, from the history read after
      the user turn was added\<close>
  "sendMessageStream_request chat params h =
     \<lparr>url = DEEPSEEK_API_URL,
      body = \<lparr>body_model = ''deepseek-chat'',
               body_messages = chat_messages (systemPrompt chat) h,
               body_stream = False,
               body_temperature = None, body_top_p = None, body_max_tokens = None\<rparr>,
      authorization = ''Bearer '' @ chat_apiKey chat,
      signal = param_abortSignal params\<rparr>"

definition chat_response :: "string \<Rightarrow> ds_response \<Rightarrow> generate_content_response" where
  \<comment> \<open>the \<open>geminiResponse\<close> built after a successful call\<close>
  "chat_response assistantMessage deepseekResponse =
     new_GenerateContentResponse
       \<lparr>candidates :=
          Some [\<lparr>cand_content = model_turn assistantMessage,
                 finishReason = STOP, cand_index = None, safetyRatings = []\<rparr>],
        usageMetadata := Some (usage_of deepseekResponse)\<rparr>"

definition sendMessageStream ::
  "backend \<Rightarrow> string option \<Rightarrow> deepseek_chat \<Rightarrow> send_params \<Rightarrow> content store
     \<Rightarrow> (thrown + generate_content_response list) \<times> content store" where
  "sendMessageStream be env chat params st =
     (let st1 = addHistory chat (user_turn (messageText (param_message params))) st
      in case axios_post be (sendMessageStream_request chat params (arr st1 (history chat))) of
           Inr None \<Rightarrow> (Inl TypeError, st1)
         | Inr (Some deepseekResponse) \<Rightarrow>
             (case choices deepseekResponse of
                None \<Rightarrow> (Inl TypeError, st1)
              | Some cs \<Rightarrow>
                  (let assistantMessage = str_or (first_choice_content cs) [];
                       st2 = addHistory chat (model_turn assistantMessage) st1
                   in (Inr [chat_response assistantMessage deepseekResponse], st2)))
         | Inl err \<Rightarrow>
             (case err of
                ResponseError rs \<Rightarrow>
                  if status rs = 403 then (Inl (JsError (auth_failed_message env)), st1)
                  else (Inl (Rethrown err), st1)
              | _ \<Rightarrow> (Inl (Rethrown err), st1)))"

section \<open>\<open>Chat\<close>\<close>


datatype turn = MockTurn  \<comment> \<open>the object built at the top of \<open>Chat.sendMessageStream\<close>\<close>

record chat =
  chat_history :: addr



definition Chat_getHistory :: "chat \<Rightarrow> turn store \<Rightarrow> addr \<times> turn store" where
  \<comment> \<open>\<open>return this.history\<close>: the address of the session's own array\<close>
  "Chat_getHistory ch st = (chat_history ch, st)"

section \<open>What a consumer observes of a stream\<close>

text \<open>
  A consumer awaits the call and drains the generator with \<open>for await\<close>. A rejected call
  ends the loop with the error; otherwise each yielded item is delivered, then the
  generator reports that it is done.
\<close>

datatype 'a stream_event = Content 'a | Done | Error thrown

definition drain :: "thrown + 'a list \<Rightarrow> 'a stream_event list" where
  "drain r = (case r of Inl e \<Rightarrow> [Error e] | Inr xs \<Rightarrow> map Content xs @ [Done])"



definition response_text :: "generate_content_response \<Rightarrow> string" where
  \<comment> \<open>the text of a response: the text parts of its first candidate\<close>
  "response_text r =
     (case candidates r of
        None \<Rightarrow> []
      | Some [] \<Rightarrow> []
      | Some (cd # _) \<Rightarrow>
          parts_text (case parts (cand_content cd) of None \<Rightarrow> [] | Some ps \<Rightarrow> ps))"

definition stream_text :: "generate_content_response list \<Rightarrow> string" where
  \<comment> \<open>the final text of a stream: the texts of its items, in order\<close>
  "stream_text rs = concat (map response_text rs)"

section \<open>The authentication hook \<open>useAuthCommand\<close>\<close>

text \<open>
  The hook's state: the two React state variables, the two refs, the selected method of
  the settings, the last value given to \<open>setAuthError\<close>, and the asynchronous calls that are
  suspended at an \<open>await\<close>. JavaScript runs each piece of code between two \<open>await\<close>s without
  interruption, so one event is one such piece: React running the effect, a call of one of
  the returned callbacks, or a suspended call resuming when its promise settles. The calls
  of \<open>performAuthFlow\<close> made so far are recorded: each one is an authentication attempt.
\<close>

datatype origin = Automatic | UserInitiated

datatype outcome = Resolved | Rejected string  \<comment> \<open>the text is \<open>getErrorMessage(e)\<close>\<close>

type_synonym setting_scope = string

datatype pending =
  AutoFlow string  \<comment> \<open>the effect's \<open>authFlow\<close>, in \<open>await performAuthFlow(...)\<close>\<close>
  | SelectClearing string setting_scope
      \<comment> \<open>\<open>handleAuthSelect\<close>, in \<open>await clearCachedCredentialFile()\<close>\<close>
  | SelectFlow string  \<comment> \<open>\<open>handleAuthSelect\<close>, in \<open>await performAuthFlow(...)\<close>\<close>

record auth_state =
  isAuthDialogOpen :: bool
  isAuthenticating :: bool
  isUserInitiatedAuthRef :: bool
  hasAutoAuthFailedRef :: bool
  selectedAuthType :: "string option"  \<comment> \<open>\<open>settings.merged.selectedAuthType\<close>\<close>
  authError :: "string option"
  pending :: "pending list"
  performAuthFlow_calls :: "(origin \<times> string) list"

datatype event =
  RunEffect
  | HandleAuthSelect "string option" setting_scope
  | OpenAuthDialog
  | CancelAuthentication
  | Settle nat outcome  \<comment> \<open>the suspended call at this position resumes\<close>

definition useAuthCommand :: "string option \<Rightarrow> auth_state" where
  \<comment> \<open>the state at the first render\<close>
  "useAuthCommand selected =
     \<lparr>isAuthDialogOpen = (selected = None),
      isAuthenticating = False,
      isUserInitiatedAuthRef = False,
      hasAutoAuthFailedRef = False,
      selectedAuthType = selected,
      authError = None,
      pending = [],
      performAuthFlow_calls = []\<rparr>"

definition effect_returns_early :: "auth_state \<Rightarrow> bool" where
  \<comment> \<open>the guard at the top of the effect's \<open>authFlow\<close>\<close>
  "effect_returns_early s =
     (isAuthDialogOpen s \<or> \<not> truthy (selectedAuthType s) \<or> isAuthenticating s \<or>
      isUserInitiatedAuthRef s \<or> hasAutoAuthFailedRef s)"

definition setValue_selectedAuthType ::
  "setting_scope \<Rightarrow> string \<Rightarrow> auth_state \<Rightarrow> auth_state" where
  \<comment> \<open>Modelled from the spec: \<open>settings.setValue\<close> is not among the sources; the spec says
      the selection "persists the newly selected method".\<close>
  "setValue_selectedAuthType scope authMethod s = s\<lparr>selectedAuthType := Some authMethod\<rparr>"

definition failed_to_login :: "string \<Rightarrow> string" where
  "failed_to_login msg = ''Failed to login. Message: '' @ msg"

definition remove_nth :: "nat \<Rightarrow> 'a list \<Rightarrow> 'a list" where
  "remove_nth i xs = take i xs @ drop (Suc i) xs"

definition resume :: "pending \<Rightarrow> outcome \<Rightarrow> auth_state \<Rightarrow> auth_state" where
  \<comment> \<open>the code after an \<open>await\<close>, up to the next \<open>await\<close> or the end of the function\<close>
  "resume p out s =
     (case p of
        AutoFlow m \<Rightarrow>
          (case out of
             Resolved \<Rightarrow> s\<lparr>isAuthenticating := False\<rparr>
           | Rejected msg \<Rightarrow>
               s\<lparr>authError := Some (failed_to_login msg),
                 hasAutoAuthFailedRef := True,
                 isAuthDialogOpen := True,
                 isAuthenticating := False\<rparr>)
      | SelectClearing m scope \<Rightarrow>
          (case out of
             Resolved \<Rightarrow>
               (setValue_selectedAuthType scope m s)
                 \<lparr>isAuthenticating := True,
                  pending := pending s @ [SelectFlow m],
                  performAuthFlow_calls := performAuthFlow_calls s @ [(UserInitiated, m)]\<rparr>
           | Rejected msg \<Rightarrow> s)
      | SelectFlow m \<Rightarrow>
          (case out of
             Resolved \<Rightarrow>
               s\<lparr>isAuthenticating := False,
                 isUserInitiatedAuthRef := False,
                 isAuthDialogOpen := False,
                 authError := None\<rparr>
           | Rejected msg \<Rightarrow>
               s\<lparr>authError := Some (failed_to_login msg),
                 isUserInitiatedAuthRef := False,
                 isAuthenticating := False\<rparr>))"

definition step :: "auth_state \<Rightarrow> event \<Rightarrow> auth_state" where
  "step s e =
     (case e of
        RunEffect \<Rightarrow>
          if effect_returns_early s then s
          else s\<lparr>isAuthenticating := True,
                 pending := pending s @ [AutoFlow (the (selectedAuthType s))],
                 performAuthFlow_calls :=
                   performAuthFlow_calls s @ [(Automatic, the (selectedAuthType s))]\<rparr>
      | HandleAuthSelect authMethod scope \<Rightarrow>
          if truthy authMethod
          then s\<lparr>isUserInitiatedAuthRef := True,
                 hasAutoAuthFailedRef := False,
                 pending := pending s @ [SelectClearing (the authMethod) scope]\<rparr>
          else s\<lparr>isAuthDialogOpen := False, authError := None\<rparr>
      | OpenAuthDialog \<Rightarrow> s\<lparr>isAuthDialogOpen := True\<rparr>
      | CancelAuthentication \<Rightarrow> s\<lparr>isAuthenticating := False\<rparr>
      | Settle i out \<Rightarrow>
          if i < length (pending s)
          then resume (pending s ! i) out (s\<lparr>pending := remove_nth i (pending s)\<rparr>)
          else s)"

definition run :: "auth_state \<Rightarrow> event list \<Rightarrow> auth_state" where
  "run s es = foldl step s es"

definition is_flow :: "pending \<Rightarrow> bool" where
  \<comment> \<open>a suspended call that is inside \<open>performAuthFlow\<close>: an attempt in flight\<close>
  "is_flow p = (case p of SelectClearing _ _ \<Rightarrow> False | _ \<Rightarrow> True)"

definition in_flight :: "auth_state \<Rightarrow> nat" where
  "in_flight s = length (filter is_flow (pending s))"

definition automatic_calls :: "auth_state \<Rightarrow> (origin \<times> string) list" where
  "automatic_calls s = filter (\<lambda>c. fst c = Automatic) (performAuthFlow_calls s)"

definition is_method_selection :: "event \<Rightarrow> bool" where
  \<comment> \<open>the user action of the claim: \<open>handleAuthSelect\<close> with a method\<close>
  "is_method_selection e =
     (case e of HandleAuthSelect authMethod _ \<Rightarrow> truthy authMethod | _ \<Rightarrow> False)"

section \<open>The claim's reading of a request, and concrete inputs\<close>

definition spec_has_user_text :: "generate_content_parameters \<Rightarrow> bool" where
  \<comment> \<open>the spec's input constraint, read on the normalised items: some User turn has
      non-empty text after flattening\<close>
  "spec_has_user_text req =
     list_ex (\<lambda>item. item_role item = Some ''user'' \<and> item_text item \<noteq> [])
       (contentsArray (contents req))"

definition scenario_response :: ds_response where
  "scenario_response =
     \<lparr>choices = Some [\<lparr>choice_message = Some \<lparr>message_content = Some ''hi''\<rparr>\<rparr>],
      usage = Some \<lparr>prompt_tokens = Some 3, completion_tokens = Some 1, total_tokens = Some 4\<rparr>\<rparr>"

definition scenario_backend :: backend where
  \<comment> \<open>answers every request with the scenario's body\<close>
  "scenario_backend = (\<lambda>b a. Inr (Some scenario_response))"

definition unreachable_backend :: backend where
  "unreachable_backend = (\<lambda>b a. Inl (NoResponse ''ECONNREFUSED''))"

definition hello_only_backend :: backend where
  \<comment> \<open>answers only the request whose messages are the one hard-coded user message\<close>
  "hello_only_backend =
     (\<lambda>b a. if body_messages b =
                  [\<lparr>msg_role = Some ''user'', msg_content = ''Hello, how can you help me?''\<rparr>]
             then Inr (Some scenario_response)
             else Inl (NoResponse ''unexpected request''))"

definition chat0 :: deepseek_chat where
  "chat0 =
     \<lparr>history = 0, systemPrompt = [], chat_apiKey = ''sk-config'', chat_model = ''deepseek-chat''\<rparr>"

definition client0 :: deepseek_client where
  "client0 = \<lparr>apiKey = ''sk-config'', client_model = ''deepseek-chat'', providers_json = ''{}''\<rparr>"

definition config0 :: app_config where
  \<comment> \<open>a configuration with a stored key\<close>
  "config0 = \<lparr>providers_deepseek_apiKey = Some ''sk-config'', providers_as_json = ''{}''\<rparr>"

definition config_without_key :: app_config where
  "config_without_key = \<lparr>providers_deepseek_apiKey = None, providers_as_json = ''{}''\<rparr>"

definition hello_req :: "abort_signal option \<Rightarrow> generate_content_parameters" where
  "hello_req sg =
     \<lparr>req_model = ''deepseek-chat'',
      contents = Some (ContentsArray [CIContent (user_turn ''hello'')]),
      config = Some \<lparr>systemInstruction = None, temperature = None, topP = None,
                     maxOutputTokens = None, abortSignal = sg\<rparr>\<rparr>"

definition empty_req :: generate_content_parameters where
  "empty_req =
     \<lparr>req_model = ''deepseek-chat'', contents = Some (ContentsArray []), config = None\<rparr>"

definition blank_req :: generate_content_parameters where
  \<comment> \<open>a blank model turn, a user turn with empty text, and a model turn with text\<close>
  "blank_req =
     \<lparr>req_model = ''deepseek-chat'',
      contents = Some (ContentsArray
        [CIContent (model_turn ''   ''), CIContent (user_turn []), CIContent (model_turn ''ok'')]),
      config = None\<rparr>"

definition hello_params :: "abort_signal option \<Rightarrow> send_params" where
  "hello_params sg = \<lparr>param_message = MsgString ''hello'', param_abortSignal = sg\<rparr>"

definition empty_params :: send_params where
  "empty_params = \<lparr>param_message = MsgString [], param_abortSignal = None\<rparr>"

definition unauthorized :: error_response where
  "unauthorized = \<lparr>status = 401, statusText = ''Unauthorized'', data_error_message = None\<rparr>"

definition forbidden :: error_response where
  "forbidden = \<lparr>status = 403, statusText = ''Forbidden'', data_error_message = None\<rparr>"

definition hi_provider :: "turn llm_provider" where
  "hi_provider = DeepSeekClient_provider (\<lambda>b a. Inr (Some scenario_response)) None client0"

definition chat1 :: chat where
  "chat1 = \<lparr>chat_history = 0\<rparr>"

definition after_auto_start :: auth_state where
  \<comment> \<open>a session with a pre-selected method, after the effect has started the automatic attempt\<close>
  "after_auto_start = run (useAuthCommand (Some ''oauth-personal'')) [RunEffect]"

definition quiet_events :: "event list" where
  \<comment> \<open>events without a method selection: the dialog is closed and reopened, the effect reruns\<close>
  "quiet_events =
     [RunEffect, HandleAuthSelect None ''User'', RunEffect, CancelAuthentication, RunEffect,
      OpenAuthDialog, HandleAuthSelect None ''User'', RunEffect]"

definition success_then_reopen :: "event list" where
  \<comment> \<open>the automatic attempt succeeds; the user opens the dialog and closes it without a
      method; the effect runs again\<close>
  "success_then_reopen =
     [RunEffect, Settle 0 Resolved, OpenAuthDialog, HandleAuthSelect None ''User'', RunEffect]"

definition cancel_then_effect :: "event list" where
  \<comment> \<open>the user cancels while the automatic attempt is in flight; the effect runs again\<close>
  "cancel_then_effect = [RunEffect, CancelAuthentication, RunEffect]"

definition two_selections :: "event list" where
  \<comment> \<open>the user selects a method; once that attempt is in flight, selects another one\<close>
  "two_selections =
     [HandleAuthSelect (Some ''api-key'') ''User'', Settle 0 Resolved,
      HandleAuthSelect (Some ''oauth-personal'') ''User'', Settle 1 Resolved]"

section \<open>Properties\<close>

subsection \<open>Evaluation and unfolding lemmas\<close>

lemma trim_Nil [simp]: "trim [] = []"
  by (simp add: trim_def)

lemma trim_hello [simp]: "trim ''hello'' = ''hello''"
  by (simp add: trim_def js_whitespace_def)

lemma trim_blank [simp]: "trim ''   '' = []"
  by (simp add: trim_def js_whitespace_def)

lemma trim_ok [simp]: "trim ''ok'' = ''ok''"
  by (simp add: trim_def js_whitespace_def)

lemma show_nat_401: "show_nat 401 = ''401''"
  by code_simp

lemmas store_defs = alloc_def arr_def arr_write_def arr_push_def arr_pop_def arr_set_def

lemmas send_defs = sendMessageStream_def addHistory_def sendMessageStream_request_def
  axios_post_def signal_aborts_call_def Let_def

lemmas client_defs = generateContentWithSystemPrompt_def withSystemPrompt_request_def
  axios_post_def signal_aborts_call_def convertDeepSeekResponseToGeminiFormat_def

lemmas adapter_defs = adapter_generateContent_def adapter_generateContentStream_def
  DeepSeekClient_provider_def


lemmas backend_defs = scenario_backend_def unreachable_backend_def hello_only_backend_def

subsection \<open>The request of \<open>generateContent\<close>\<close>


text \<open>
  C10. \<open>DeepSeekClient.generateContent\<close> ignores its history argument. Whatever the history,
  the message list of the request handed to \<open>axios.post\<close> is the single hard-coded user
  message; for any two histories the message lists, the requests and the outcomes of the
  call are the same; and with a configured key, when the backend answers the request that
  carries exactly that message, \<open>generateContent\<close> returns that answer, converted.
\<close>

theorem generateContent_ignores_history:
  "convertTurnsToMessages h1 = convertTurnsToMessages h2 \<and>
   convertTurnsToMessages h1 =
     [\<lparr>msg_role = Some ''user'', msg_content = ''Hello, how can you help me?''\<rparr>] \<and>
   body_messages (body (generateContent_request c h1)) =
     [\<lparr>msg_role = Some ''user'', msg_content = ''Hello, how can you help me?''\<rparr>] \<and>
   generateContent_request c h1 = generateContent_request c h2 \<and>
   generateContent be env c h1 = generateContent be env c h2 \<and>
   (apiKey c \<noteq> [] \<and>
    be \<lparr>body_model = ''deepseek-chat'',
        body_messages = [\<lparr>msg_role = Some ''user'', msg_content = ''Hello, how can you help me?''\<rparr>],
        body_stream = False,
        body_temperature = None, body_top_p = None, body_max_tokens = None\<rparr>
       (''Bearer '' @ apiKey c) = Inr (Some d) \<longrightarrow>
      generateContent be env c h1 = Inr (gemini_response d) \<and>
      generateContent be env c h2 = Inr (gemini_response d))"
  by (simp add: generateContent_def generateContent_request_def convertTurnsToMessages_def
      axios_post_def signal_aborts_call_def convertDeepSeekResponseToGeminiFormat_def)

theorem generateContent_ignores_history_witness:
  "apiKey client0 \<noteq> [] \<and>
   hello_only_backend
       \<lparr>body_model = ''deepseek-chat'',
        body_messages = [\<lparr>msg_role = Some ''user'', msg_content = ''Hello, how can you help me?''\<rparr>],
        body_stream = False,
        body_temperature = None, body_top_p = None, body_max_tokens = None\<rparr>
       (''Bearer '' @ apiKey client0) = Inr (Some scenario_response) \<and>
   generateContent hello_only_backend None client0 ([] :: turn list) =
     Inr (gemini_response scenario_response) \<and>
   generateContent hello_only_backend None client0 [MockTurn, MockTurn] =
     Inr (gemini_response scenario_response)"
proof -
  have k: "apiKey client0 \<noteq> [] \<and>
     hello_only_backend
       \<lparr>body_model = ''deepseek-chat'',
        body_messages = [\<lparr>msg_role = Some ''user'', msg_content = ''Hello, how can you help me?''\<rparr>],
        body_stream = False,
        body_temperature = None, body_top_p = None, body_max_tokens = None\<rparr>
       (''Bearer '' @ apiKey client0) = Inr (Some scenario_response)"
    by (simp add: client0_def hello_only_backend_def)
  note t = generateContent_ignores_history
    [of "[] :: turn list" "[MockTurn, MockTurn]" client0 hello_only_backend None scenario_response]
  from t [THEN conjunct2, THEN conjunct2, THEN conjunct2, THEN conjunct2, THEN conjunct2,
          THEN mp, OF k] k
  show ?thesis by simp
qed

subsection \<open>Token accounting\<close>

lemma withSystemPrompt_success:
  assumes "generateContentWithSystemPrompt be env c req = Inr r"
  shows "\<exists>d. axios_post be (withSystemPrompt_request c req) = Inr (Some d) \<and>
             r = gemini_response d"
  using assms
  by (auto simp: generateContentWithSystemPrompt_def convertDeepSeekResponseToGeminiFormat_def
      split: sum.splits axios_error.splits if_splits option.splits)

lemma sendMessageStream_success:
  assumes "sendMessageStream be env chat params st = (Inr rs, st')"
  shows "\<exists>d cs. axios_post be (sendMessageStream_request chat params
             (arr (addHistory chat (user_turn (messageText (param_message params))) st)
                (history chat))) = Inr (Some d) \<and>
           choices d = Some cs \<and>
           rs = [chat_response (str_or (first_choice_content cs) []) d] \<and>
           st' = addHistory chat (model_turn (str_or (first_choice_content cs) []))
                   (addHistory chat (user_turn (messageText (param_message params))) st)"
  using assms
  by (auto simp: sendMessageStream_def Let_def
      split: sum.splits axios_error.splits if_splits option.splits)



lemma stream_is_single_shot:
  "adapter_generateContentStream p req =
     (case adapter_generateContent p req of Inl e \<Rightarrow> Inl e | Inr r \<Rightarrow> Inr [r])"
  by (simp add: adapter_generateContent_def adapter_generateContentStream_def split: option.splits)



subsection \<open>History and failed turns\<close>

lemma chat0_is_new:
  "new_DeepSeekChat ''sk-config'' ''deepseek-chat'' None [] = (chat0, [[]])"
  by (simp add: new_DeepSeekChat_def alloc_def chat0_def str_or_def)

lemma sendMessageStream_failure:
  assumes "sendMessageStream be env chat params st = (Inl e, st')"
  shows "st' = addHistory chat (user_turn (messageText (param_message params))) st"
  using assms
  by (auto simp: sendMessageStream_def Let_def
      split: sum.splits option.splits axios_error.splits if_splits)

lemma arr_addHistory:
  "history chat < length st \<Longrightarrow>
     arr (addHistory chat c st) (history chat) = arr st (history chat) @ [c]"
  by (simp add: addHistory_def store_defs)

lemma length_addHistory [simp]: "length (addHistory chat c st) = length st"
  by (simp add: addHistory_def store_defs)

text \<open>
  C1, as the code has it. \<open>sendMessageStream\<close> commits the user turn before it calls the
  backend and does not take it back: after a failed call the history is the history before
  the call followed by exactly that user turn, and no model turn. A retry with the same
  input appends the same user turn again, whatever its outcome: when the retry fails too
  the history ends with the two user turns, and when it succeeds the model turn follows
  them.
\<close>

theorem failed_turn_keeps_user_turn:
  assumes "history chat < length st"
      and "sendMessageStream be env chat params st = (Inl e, st1)"
  shows "arr st1 (history chat) =
           arr st (history chat) @ [user_turn (messageText (param_message params))] \<and>
         (\<forall>be' env' r st2. sendMessageStream be' env' chat params st1 = (r, st2) \<longrightarrow>
            (case r of
               Inl e' \<Rightarrow>
                 arr st2 (history chat) =
                   arr st (history chat) @ [user_turn (messageText (param_message params)),
                                            user_turn (messageText (param_message params))]
             | Inr rs \<Rightarrow>
                 (\<exists>t. arr st2 (history chat) =
                   arr st (history chat) @ [user_turn (messageText (param_message params)),
                                            user_turn (messageText (param_message params)),
                                            model_turn t])))"
proof -
  let ?u = "user_turn (messageText (param_message params))"
  have st1: "st1 = addHistory chat ?u st"
    using assms(2) by (rule sendMessageStream_failure)
  have h1: "arr st1 (history chat) = arr st (history chat) @ [?u]"
    using assms(1) by (simp add: st1 arr_addHistory)
  have valid1: "history chat < length st1"
    using assms(1) by (simp add: st1)
  have retry: "case r of
       Inl e' \<Rightarrow> arr st2 (history chat) = arr st (history chat) @ [?u, ?u]
     | Inr rs \<Rightarrow> (\<exists>t. arr st2 (history chat) = arr st (history chat) @ [?u, ?u, model_turn t])"
    if call: "sendMessageStream be' env' chat params st1 = (r, st2)" for be' env' r st2
  proof (cases r)
    case (Inl e')
    with call have "st2 = addHistory chat ?u st1"
      using sendMessageStream_failure by blast
    with valid1 h1 Inl show ?thesis
      by (simp add: arr_addHistory)
  next
    case (Inr rs)
    with call obtain t where "st2 = addHistory chat (model_turn t) (addHistory chat ?u st1)"
      using sendMessageStream_success by blast
    with valid1 h1 have "arr st2 (history chat) = arr st (history chat) @ [?u, ?u, model_turn t]"
      by (simp add: arr_addHistory)
    with Inr show ?thesis by auto
  qed
  from h1 retry show ?thesis by blast
qed

theorem failed_turn_keeps_user_turn_witness:
  "history chat0 < length [[] :: content list] \<and>
   sendMessageStream unreachable_backend None chat0 (hello_params None) [[]] =
     (Inl (Rethrown (NoResponse ''ECONNREFUSED'')), [[user_turn ''hello'']]) \<and>
   sendMessageStream unreachable_backend None chat0 (hello_params None) [[user_turn ''hello'']] =
     (Inl (Rethrown (NoResponse ''ECONNREFUSED'')), [[user_turn ''hello'', user_turn ''hello'']]) \<and>
   sendMessageStream scenario_backend None chat0 (hello_params None) [[user_turn ''hello'']] =
     (Inr [chat_response ''hi'' scenario_response],
      [[user_turn ''hello'', user_turn ''hello'', model_turn ''hi'']]) \<and>
   arr [[user_turn ''hello'']] (history chat0) = arr [[]] (history chat0) @ [user_turn ''hello''] \<and>
   arr [[user_turn ''hello'', user_turn ''hello'']] (history chat0) =
     arr [[]] (history chat0) @ [user_turn ''hello'', user_turn ''hello''] \<and>
   (\<exists>t. arr [[user_turn ''hello'', user_turn ''hello'', model_turn ''hi'']] (history chat0) =
     arr [[]] (history chat0) @ [user_turn ''hello'', user_turn ''hello'', model_turn t])"
proof -
  have v: "history chat0 < length [[] :: content list]"
    by (simp add: chat0_def)
  have f: "sendMessageStream unreachable_backend None chat0 (hello_params None) [[]] =
     (Inl (Rethrown (NoResponse ''ECONNREFUSED'')), [[user_turn ''hello'']])"
    by (simp add: send_defs store_defs chat0_def hello_params_def messageText_def
        unreachable_backend_def)
  have g: "sendMessageStream unreachable_backend None chat0 (hello_params None)
       [[user_turn ''hello'']] =
     (Inl (Rethrown (NoResponse ''ECONNREFUSED'')), [[user_turn ''hello'', user_turn ''hello'']])"
    by (simp add: send_defs store_defs chat0_def hello_params_def messageText_def
        unreachable_backend_def)
  have s: "sendMessageStream scenario_backend None chat0 (hello_params None)
       [[user_turn ''hello'']] =
     (Inr [chat_response ''hi'' scenario_response],
      [[user_turn ''hello'', user_turn ''hello'', model_turn ''hi'']])"
    by (simp add: send_defs store_defs chat0_def hello_params_def messageText_def
        scenario_backend_def scenario_response_def first_choice_content_def str_or_def)
  have m: "messageText (param_message (hello_params None)) = ''hello''"
    by (simp add: hello_params_def messageText_def)
  note t = failed_turn_keeps_user_turn [OF v f, unfolded m]
  from t [THEN conjunct1] t [THEN conjunct2, rule_format, OF g]
       t [THEN conjunct2, rule_format, OF s] v f g s
  show ?thesis by simp
qed

text \<open>
  C1, as stated, fails: with an empty history and a backend that cannot be reached, the
  call fails and the history has grown from no turn to one.
\<close>

theorem failed_turn_changes_history:
  "sendMessageStream unreachable_backend None chat0 (hello_params None) [[]] =
     (Inl (Rethrown (NoResponse ''ECONNREFUSED'')), [[user_turn ''hello'']]) \<and>
   arr [[]] (history chat0) = [] \<and>
   arr [[user_turn ''hello'']] (history chat0) = [user_turn ''hello''] \<and>
   length (arr [[user_turn ''hello'']] (history chat0)) \<noteq> length (arr [[]] (history chat0))"
  by (simp add: send_defs store_defs chat0_def hello_params_def messageText_def
      unreachable_backend_def)

subsection \<open>Buffered and streamed generation\<close>

lemma response_text_gemini_response:
  "response_text (gemini_response d) =
     str_or (case choices d of None \<Rightarrow> None | Some cs \<Rightarrow> first_choice_content cs) []"
  by (simp add: response_text_def gemini_response_def Let_def
      new_GenerateContentResponse_def parts_text_def str_or_def)

text \<open>
  C4. Over the adapter, the streaming operation is the buffered operation with its result
  wrapped in a one-item stream: it fails exactly when the buffered operation fails, with
  the same error. For the DeepSeek provider, when the buffered operation returns a response
  the stream yields exactly that response and then completes, so the final text of the
  stream is the text of the buffered response; the response carries one candidate whose
  content is a Model turn with that text. (The backend is a function of the request: both
  operations send the same request.)
\<close>

theorem buffered_and_streamed_agree:
  "adapter_generateContentStream p req =
     (case adapter_generateContent p req of Inl e \<Rightarrow> Inl e | Inr r \<Rightarrow> Inr [r]) \<and>
   (p = DeepSeekClient_provider be env c \<and> adapter_generateContent p req = Inr r \<longrightarrow>
      adapter_generateContentStream p req = Inr [r] \<and>
      stream_text [r] = response_text r \<and>
      drain (adapter_generateContentStream p req) = [Content r, Done] \<and>
      (\<exists>t. candidates r =
         Some [\<lparr>cand_content = model_turn t, finishReason = STOP, cand_index = Some 0,
                 safetyRatings = []\<rparr>] \<and> response_text r = t))"
proof (intro conjI impI)
  show "adapter_generateContentStream p req =
     (case adapter_generateContent p req of Inl e \<Rightarrow> Inl e | Inr r \<Rightarrow> Inr [r])"
    by (rule stream_is_single_shot)
next
  assume "p = DeepSeekClient_provider be env c \<and> adapter_generateContent p req = Inr r"
  then have p: "p = DeepSeekClient_provider be env c"
    and a: "adapter_generateContent p req = Inr r"
    by blast+
  show s: "adapter_generateContentStream p req = Inr [r]"
    by (simp add: stream_is_single_shot a)
  show "stream_text [r] = response_text r"
    by (simp add: stream_text_def)
  show "drain (adapter_generateContentStream p req) = [Content r, Done]"
    by (simp add: s drain_def)
  from a have "generateContentWithSystemPrompt be env c req = Inr r"
    by (simp add: p adapter_generateContent_def DeepSeekClient_provider_def)
  then obtain d where r: "r = gemini_response d"
    using withSystemPrompt_success by blast
  show "\<exists>t. candidates r =
         Some [\<lparr>cand_content = model_turn t, finishReason = STOP, cand_index = Some 0,
                 safetyRatings = []\<rparr>] \<and> response_text r = t"
    unfolding r response_text_gemini_response
    by (simp add: gemini_response_def Let_def new_GenerateContentResponse_def model_turn_def)
qed

theorem buffered_and_streamed_agree_witness:
  "adapter_generateContent hi_provider (hello_req None) =
     Inr (gemini_response scenario_response) \<and>
   adapter_generateContentStream hi_provider (hello_req None) =
     Inr [gemini_response scenario_response] \<and>
   drain (adapter_generateContentStream hi_provider (hello_req None)) =
     [Content (gemini_response scenario_response), Done] \<and>
   stream_text [gemini_response scenario_response] = ''hi'' \<and>
   response_text (gemini_response scenario_response) = ''hi''"
proof -
  have b: "adapter_generateContent hi_provider (hello_req None) =
     Inr (gemini_response scenario_response)"
    by (simp add: hi_provider_def adapter_defs client_defs hello_req_def)
  have t: "response_text (gemini_response scenario_response) = ''hi''"
    by (simp add: response_text_gemini_response scenario_response_def first_choice_content_def
        str_or_def)
  have h: "hi_provider = DeepSeekClient_provider (\<lambda>b a. Inr (Some scenario_response)) None client0 \<and>
      adapter_generateContent hi_provider (hello_req None) =
        Inr (gemini_response scenario_response)"
    using b by (simp add: hi_provider_def)
  from buffered_and_streamed_agree [THEN conjunct2, THEN mp, OF h] b t
  show ?thesis by (simp add: drain_def)
qed

subsection \<open>Requests without user text\<close>

lemma trim_nonempty: "trim s \<noteq> [] \<Longrightarrow> s \<noteq> []"
  by auto

lemma item_messages_filter:
  "concat (map item_messages items) =
     map (\<lambda>item. \<lparr>msg_role = (if item_role item = Some ''model'' then Some ''assistant''
                              else item_role item),
                  msg_content = item_text item\<rparr>)
       (filter (\<lambda>item. trim (item_text item) \<noteq> []) items)"
  by (induction items) (simp_all add: item_messages_def Let_def)

lemma system_messages_role:
  "m \<in> set (system_messages cfg) \<Longrightarrow> msg_role m = Some ''system''"
  by (auto simp: system_messages_def split: option.splits if_splits)

lemma system_messages_not_blank:
  "m \<in> set (system_messages cfg) \<Longrightarrow> trim (msg_content m) \<noteq> []"
  by (auto simp: system_messages_def split: option.splits if_splits)

lemma history_message_not_blank:
  "m \<in> set (history_message c) \<Longrightarrow> trim (msg_content m) \<noteq> []"
  by (auto simp: history_message_def Let_def split: if_splits)

lemma chat_messages_not_blank:
  "list_all (\<lambda>m. trim (msg_content m) \<noteq> []) (chat_messages sp h)"
  by (auto simp: chat_messages_def list_all_iff dest: history_message_not_blank)

text \<open>
  C7, as the code has it. \<open>generateContentWithSystemPrompt\<close> has no check on the history:
  it always calls the backend. The outgoing message list is the system message (if any)
  followed by one message for each turn whose flattened text is not blank, in order; turns
  with blank text are left out, so every message sent has non-blank content (the chat's
  \<open>sendMessageStream\<close> filters its history the same way). For a request with no User turn
  with non-empty text the request therefore goes out without any user message, and when
  the backend answers it with a body the operation returns that answer, converted, instead
  of failing.
\<close>

theorem empty_request_is_sent:
  assumes "\<not> spec_has_user_text req"
      and "axios_post be (withSystemPrompt_request c req) = Inr (Some data)"
  shows "generateContentWithSystemPrompt be env c req = Inr (gemini_response data) \<and>
         body_messages (body (withSystemPrompt_request c req)) =
           system_messages (config req) @
           map (\<lambda>item. \<lparr>msg_role = (if item_role item = Some ''model'' then Some ''assistant''
                                    else item_role item),
                        msg_content = item_text item\<rparr>)
             (filter (\<lambda>item. trim (item_text item) \<noteq> []) (contentsArray (contents req))) \<and>
         list_all (\<lambda>m. trim (msg_content m) \<noteq> [])
           (body_messages (body (withSystemPrompt_request c req))) \<and>
         list_all (\<lambda>m. msg_role m \<noteq> Some ''user'')
           (body_messages (body (withSystemPrompt_request c req))) \<and>
         list_all (\<lambda>m. trim (msg_content m) \<noteq> [])
           (body_messages (body (sendMessageStream_request chat params h)))"
proof (intro conjI)
  show "generateContentWithSystemPrompt be env c req = Inr (gemini_response data)"
    using assms(2)
    by (simp add: generateContentWithSystemPrompt_def convertDeepSeekResponseToGeminiFormat_def)
  show msgs: "body_messages (body (withSystemPrompt_request c req)) =
           system_messages (config req) @
           map (\<lambda>item. \<lparr>msg_role = (if item_role item = Some ''model'' then Some ''assistant''
                                    else item_role item),
                        msg_content = item_text item\<rparr>)
             (filter (\<lambda>item. trim (item_text item) \<noteq> []) (contentsArray (contents req)))"
    by (simp add: withSystemPrompt_request_def item_messages_filter)
  show "list_all (\<lambda>m. trim (msg_content m) \<noteq> [])
           (body_messages (body (withSystemPrompt_request c req)))"
    unfolding msgs by (auto simp: list_all_iff dest: system_messages_not_blank)
  have no_user_item: "item_role item \<noteq> Some ''user''"
    if "item \<in> set (contentsArray (contents req))" and "trim (item_text item) \<noteq> []" for item
  proof
    assume "item_role item = Some ''user''"
    moreover from that(2) have "item_text item \<noteq> []"
      by (rule trim_nonempty)
    ultimately have "spec_has_user_text req"
      using that(1) by (auto simp: spec_has_user_text_def list_ex_iff)
    with assms(1) show False by simp
  qed
  show "list_all (\<lambda>m. msg_role m \<noteq> Some ''user'')
           (body_messages (body (withSystemPrompt_request c req)))"
    unfolding msgs
    using no_user_item
    by (auto simp: list_all_iff dest: system_messages_role split: if_splits)
  show "list_all (\<lambda>m. trim (msg_content m) \<noteq> [])
           (body_messages (body (sendMessageStream_request chat params h)))"
    by (simp add: sendMessageStream_request_def chat_messages_not_blank)
qed

theorem empty_request_is_sent_witness:
  "\<not> spec_has_user_text blank_req \<and>
   axios_post scenario_backend (withSystemPrompt_request client0 blank_req) =
     Inr (Some scenario_response) \<and>
   generateContentWithSystemPrompt scenario_backend None client0 blank_req =
     Inr (gemini_response scenario_response) \<and>
   body_messages (body (withSystemPrompt_request client0 blank_req)) =
     [\<lparr>msg_role = Some ''assistant'', msg_content = ''ok''\<rparr>] \<and>
   body_messages (body (sendMessageStream_request chat0 empty_params
       [model_turn ''   '', user_turn [], model_turn ''ok''])) =
     [\<lparr>msg_role = Some ''assistant'', msg_content = ''ok''\<rparr>]"
proof -
  have a: "\<not> spec_has_user_text blank_req"
    by (simp add: spec_has_user_text_def blank_req_def contentsArray_def item_role_def
        item_text_def user_turn_def model_turn_def parts_text_def str_or_def)
  have b: "axios_post scenario_backend (withSystemPrompt_request client0 blank_req) =
     Inr (Some scenario_response)"
    by (simp add: blank_req_def client_defs scenario_backend_def)
  have i: "contentsArray (contents blank_req) =
     [CIContent (model_turn ''   ''), CIContent (user_turn []), CIContent (model_turn ''ok'')]"
    by (simp add: blank_req_def contentsArray_def)
  have x: "item_text (CIContent (model_turn ''   '')) = ''   ''"
    "item_text (CIContent (user_turn [])) = []"
    "item_text (CIContent (model_turn ''ok'')) = ''ok''"
    "item_role (CIContent (model_turn ''ok'')) = Some ''model''"
    by (simp_all add: item_text_def item_role_def user_turn_def model_turn_def parts_text_def
        str_or_def)
  have s: "system_messages (config blank_req) = []"
    by (simp add: blank_req_def system_messages_def)
  have k: "body_messages (body (sendMessageStream_request chat0 empty_params
       [model_turn ''   '', user_turn [], model_turn ''ok''])) =
     [\<lparr>msg_role = Some ''assistant'', msg_content = ''ok''\<rparr>]"
    by (simp add: sendMessageStream_request_def chat_messages_def history_message_def chat0_def
        user_turn_def model_turn_def parts_text_def str_or_def Let_def)
  from empty_request_is_sent [OF a b, of None chat0 empty_params
      "[model_turn ''   '', user_turn [], model_turn ''ok'']"] a b k
  show ?thesis by (simp add: i x s)
qed

text \<open>
  C7, as stated, fails: the request with an empty history has no user text, is sent with
  an empty message list, and the operation returns the backend's answer. The chat's
  \<open>sendMessageStream\<close> does the same with an empty user message.
\<close>

theorem empty_request_not_rejected:
  "\<not> spec_has_user_text empty_req \<and>
   body_messages (body (withSystemPrompt_request client0 empty_req)) = [] \<and>
   generateContentWithSystemPrompt scenario_backend None client0 empty_req =
     Inr (gemini_response scenario_response) \<and>
   body_messages (body (sendMessageStream_request chat0 empty_params [user_turn []])) = [] \<and>
   sendMessageStream scenario_backend None chat0 empty_params [[]] =
     (Inr [chat_response ''hi'' scenario_response], [[user_turn [], model_turn ''hi'']])"
  by (simp add: spec_has_user_text_def empty_req_def contentsArray_def client_defs
      system_messages_def send_defs store_defs chat0_def empty_params_def messageText_def
      chat_messages_def history_message_def user_turn_def parts_text_def str_or_def
      scenario_response_def scenario_backend_def first_choice_content_def)

subsection \<open>Rejected credentials\<close>

lemma startChat_key: "chat_apiKey (fst (startChat c sp extra st)) = apiKey c"
  by (simp add: startChat_def new_DeepSeekChat_def alloc_def)

text \<open>
  C9, as the code has it. The key sent in the \<open>Authorization\<close> header is the stored
  configuration's key (the client's constructor reads it there, and \<open>startChat\<close> hands it
  to the chat); the environment is never read for it. When the backend answers with
  status 403, both \<open>generateContentWithSystemPrompt\<close> and the chat's \<open>sendMessageStream\<close>
  fail with an error whose message reports on the environment variable
  \<open>DEEPSEEK_API_KEY\<close> only, saying whether it is set. The message is one of two fixed
  texts chosen by that alone, so it holds no key's value and says nothing of the stored
  key. With any other status (401 among them) \<open>generateContentWithSystemPrompt\<close> fails
  with the generic backend error, whose message is the backend's message or the status
  text followed by the status, and the chat rethrows the transport's error unchanged.
\<close>

theorem auth_failure_message:
  "(axios_post be (withSystemPrompt_request c req) = Inl (ResponseError rs) \<and> status rs = 403 \<longrightarrow>
      generateContentWithSystemPrompt be env c req = Inl (JsError (auth_failed_message env))) \<and>
   (axios_post be (sendMessageStream_request chat params
        (arr (addHistory chat (user_turn (messageText (param_message params))) st) (history chat))) =
      Inl (ResponseError rs) \<and> status rs = 403 \<longrightarrow>
      fst (sendMessageStream be env chat params st) = Inl (JsError (auth_failed_message env))) \<and>
   auth_failed_message env =
     (if truthy env
      then ''DeepSeek API authentication failed. Environment variable DEEPSEEK_API_KEY: SET. Please check your API key.''
      else ''DeepSeek API authentication failed. Environment variable DEEPSEEK_API_KEY: NOT SET. Please check your API key.'') \<and>
   authorization (withSystemPrompt_request (new_DeepSeekClient cfg) req) =
     ''Bearer '' @ str_or (providers_deepseek_apiKey cfg) [] \<and>
   authorization (sendMessageStream_request
       (fst (startChat (new_DeepSeekClient cfg) sp extra st0)) params h) =
     ''Bearer '' @ str_or (providers_deepseek_apiKey cfg) [] \<and>
   (axios_post be (withSystemPrompt_request c req) = Inl (ResponseError rs) \<and> status rs \<noteq> 403 \<longrightarrow>
      generateContentWithSystemPrompt be env c req =
        Inl (JsError (''DeepSeek API Error: '' @ str_or (data_error_message rs) (statusText rs) @
               '' (Status: '' @ show_nat (status rs) @ '')''))) \<and>
   (axios_post be (sendMessageStream_request chat params
        (arr (addHistory chat (user_turn (messageText (param_message params))) st) (history chat))) =
      Inl (ResponseError rs) \<and> status rs \<noteq> 403 \<longrightarrow>
      fst (sendMessageStream be env chat params st) = Inl (Rethrown (ResponseError rs)))"
  by (simp add: generateContentWithSystemPrompt_def sendMessageStream_def Let_def
      auth_failed_message_def withSystemPrompt_request_def sendMessageStream_request_def
      new_DeepSeekClient_def startChat_key)

text \<open>
  C9, as stated, fails twice. For the status 401 (Unauthorized) the adapter's operation
  fails with the generic backend error, whose message names no credential source, and the
  chat rethrows the transport's error unchanged. For the status 403 the message does not
  report on the credential that was checked: with a stored key and no environment
  variable, the stored key is sent and rejected, and the message says that the environment
  variable is not set; with no stored key and the environment variable set, an empty key is
  sent, and the message says that the variable is set.
\<close>

theorem auth_message_misreports_credential:
  "generateContentWithSystemPrompt (\<lambda>b a. Inl (ResponseError unauthorized)) (Some ''sk-env'')
      client0 (hello_req None) =
     Inl (JsError ''DeepSeek API Error: Unauthorized (Status: 401)'') \<and>
   fst (sendMessageStream (\<lambda>b a. Inl (ResponseError unauthorized)) (Some ''sk-env'') chat0
      (hello_params None) [[]]) =
     Inl (Rethrown (ResponseError unauthorized)) \<and>
   JsError ''DeepSeek API Error: Unauthorized (Status: 401)'' \<noteq>
     JsError (auth_failed_message (Some ''sk-env'')) \<and>
   authorization (withSystemPrompt_request (new_DeepSeekClient config0) (hello_req None)) =
     ''Bearer sk-config'' \<and>
   generateContentWithSystemPrompt (\<lambda>b a. Inl (ResponseError forbidden)) None
      (new_DeepSeekClient config0) (hello_req None) =
     Inl (JsError ''DeepSeek API authentication failed. Environment variable DEEPSEEK_API_KEY: NOT SET. Please check your API key.'') \<and>
   authorization (withSystemPrompt_request (new_DeepSeekClient config_without_key) (hello_req None)) =
     ''Bearer '' \<and>
   generateContentWithSystemPrompt (\<lambda>b a. Inl (ResponseError forbidden)) (Some ''sk-env'')
      (new_DeepSeekClient config_without_key) (hello_req None) =
     Inl (JsError ''DeepSeek API authentication failed. Environment variable DEEPSEEK_API_KEY: SET. Please check your API key.'')"
  by (simp add: client_defs send_defs hello_req_def hello_params_def unauthorized_def
      forbidden_def show_nat_401 str_or_def auth_failed_message_def truthy_def
      new_DeepSeekClient_def config0_def config_without_key_def)

theorem auth_failure_message_witness:
  "axios_post (\<lambda>b a. Inl (ResponseError forbidden)) (withSystemPrompt_request client0 (hello_req None)) =
     Inl (ResponseError forbidden) \<and> status forbidden = 403 \<and>
   axios_post (\<lambda>b a. Inl (ResponseError unauthorized)) (withSystemPrompt_request client0 (hello_req None)) =
     Inl (ResponseError unauthorized) \<and> status unauthorized \<noteq> 403 \<and>
   generateContentWithSystemPrompt (\<lambda>b a. Inl (ResponseError forbidden)) (Some ''sk-env'')
      client0 (hello_req None) =
     Inl (JsError ''DeepSeek API authentication failed. Environment variable DEEPSEEK_API_KEY: SET. Please check your API key.'') \<and>
   fst (sendMessageStream (\<lambda>b a. Inl (ResponseError forbidden)) None chat0 (hello_params None) [[]]) =
     Inl (JsError ''DeepSeek API authentication failed. Environment variable DEEPSEEK_API_KEY: NOT SET. Please check your API key.'') \<and>
   generateContentWithSystemPrompt (\<lambda>b a. Inl (ResponseError unauthorized)) (Some ''sk-env'')
      client0 (hello_req None) =
     Inl (JsError ''DeepSeek API Error: Unauthorized (Status: 401)'') \<and>
   fst (sendMessageStream (\<lambda>b a. Inl (ResponseError unauthorized)) None chat0 (hello_params None) [[]]) =
     Inl (Rethrown (ResponseError unauthorized))"
proof -
  have a: "axios_post (\<lambda>b a. Inl (ResponseError forbidden))
      (withSystemPrompt_request client0 (hello_req None)) = Inl (ResponseError forbidden)"
    by (simp add: client_defs hello_req_def)
  have a': "axios_post (\<lambda>b a. Inl (ResponseError unauthorized))
      (withSystemPrompt_request client0 (hello_req None)) = Inl (ResponseError unauthorized)"
    by (simp add: client_defs hello_req_def)
  have b: "axios_post (\<lambda>b a. Inl (ResponseError forbidden))
      (sendMessageStream_request chat0 (hello_params None)
        (arr (addHistory chat0 (user_turn (messageText (param_message (hello_params None)))) [[]])
           (history chat0))) = Inl (ResponseError forbidden)"
    by (simp add: send_defs hello_params_def)
  have b': "axios_post (\<lambda>b a. Inl (ResponseError unauthorized))
      (sendMessageStream_request chat0 (hello_params None)
        (arr (addHistory chat0 (user_turn (messageText (param_message (hello_params None)))) [[]])
           (history chat0))) = Inl (ResponseError unauthorized)"
    by (simp add: send_defs hello_params_def)
  have s: "status forbidden = 403" "status unauthorized \<noteq> 403"
    "statusText unauthorized = ''Unauthorized''" "data_error_message unauthorized = None"
    by (simp_all add: forbidden_def unauthorized_def)
  have n: "show_nat (status unauthorized) = ''401''"
    by (simp add: unauthorized_def show_nat_401)
  note t1 = auth_failure_message [where be = "\<lambda>b a. Inl (ResponseError forbidden)"
      and c = client0 and req = "hello_req None" and rs = forbidden and env = "Some ''sk-env''"]
  note t2 = auth_failure_message [where be = "\<lambda>b a. Inl (ResponseError forbidden)"
      and rs = forbidden and env = None and chat = chat0 and params = "hello_params None"
      and st = "[[]]"]
  note t3 = auth_failure_message [where be = "\<lambda>b a. Inl (ResponseError unauthorized)"
      and c = client0 and req = "hello_req None" and rs = unauthorized and env = "Some ''sk-env''"]
  note t4 = auth_failure_message [where be = "\<lambda>b a. Inl (ResponseError unauthorized)"
      and rs = unauthorized and env = None and chat = chat0 and params = "hello_params None"
      and st = "[[]]"]
  from t1 t2 t3 t4 a a' b b' s n show ?thesis
    by (simp add: truthy_def str_or_def)
qed

subsection \<open>Termination of streams and cancellation\<close>








subsection \<open>Snapshots of the history\<close>

text \<open>
  C5 on \<open>Chat\<close>. \<open>Chat.getHistory\<close> returns the session's own array: a \<open>push\<close> on the
  returned array of a session with an empty history is seen by the next \<open>getHistory\<close>,
  which returns one turn.
\<close>

theorem Chat_getHistory_returns_own_array:
  "Chat_getHistory chat1 [[]] = (0, [[]]) \<and>
   arr [[]] (chat_history chat1) = [] \<and>
   arr (arr_push (fst (Chat_getHistory chat1 [[]])) MockTurn (snd (Chat_getHistory chat1 [[]])))
       (chat_history chat1) = [MockTurn] \<and>
   arr (snd (Chat_getHistory chat1
          (arr_push (fst (Chat_getHistory chat1 [[]])) MockTurn (snd (Chat_getHistory chat1 [[]])))))
       (fst (Chat_getHistory chat1
          (arr_push (fst (Chat_getHistory chat1 [[]])) MockTurn (snd (Chat_getHistory chat1 [[]])))))
     = [MockTurn]"
  by (simp add: Chat_getHistory_def chat1_def store_defs)

lemma mutations_are_writes:
  "arr_push a x st = arr_write a (arr st a @ [x]) st"
  "arr_pop a st = arr_write a (butlast (arr st a)) st"
  "arr_set a i x st = arr_write a ((arr st a)[i := x]) st"
  by (simp_all add: arr_push_def arr_pop_def arr_set_def)

text \<open>
  \<open>DeepSeekChat.getHistory\<close> returns a copy: whatever is written to the returned array,
  the session's history and the next \<open>getHistory\<close> are unchanged.
\<close>

lemma DeepSeekChat_getHistory_snapshot:
  assumes "history chat < length st"
      and "DeepSeekChat_getHistory chat st = (h, st1)"
  shows "arr st1 h = arr st (history chat) \<and>
         arr (arr_write h xs st1) (history chat) = arr st (history chat) \<and>
         arr (snd (DeepSeekChat_getHistory chat (arr_write h xs st1)))
             (fst (DeepSeekChat_getHistory chat (arr_write h xs st1))) = arr st (history chat)"
  using assms
  by (auto simp: DeepSeekChat_getHistory_def store_defs nth_append)


lemma setHistory_copies:
  assumes "h < length st" and "setHistory chat h st = (chat', st1)"
  shows "arr st1 (history chat') = arr st h \<and>
         arr (arr_write h xs st1) (history chat') = arr st h"
  using assms
  by (auto simp: setHistory_def store_defs nth_append)

subsection \<open>The authentication hook\<close>

lemma automatic_calls_resume:
  "automatic_calls (resume p out s) = automatic_calls s"
  by (simp add: resume_def automatic_calls_def setValue_selectedAuthType_def
      split: pending.splits outcome.splits)

lemma hasAutoAuthFailedRef_resume:
  "hasAutoAuthFailedRef s \<Longrightarrow> hasAutoAuthFailedRef (resume p out s)"
  by (simp add: resume_def setValue_selectedAuthType_def split: pending.splits outcome.splits)

lemma step_after_auto_failure:
  assumes "hasAutoAuthFailedRef s" and "\<not> is_method_selection e"
  shows "hasAutoAuthFailedRef (step s e) \<and> automatic_calls (step s e) = automatic_calls s"
proof (cases e)
  case RunEffect
  with assms(1) show ?thesis
    by (simp add: step_def effect_returns_early_def)
next
  case (HandleAuthSelect m sc)
  with assms show ?thesis
    by (simp add: step_def is_method_selection_def automatic_calls_def)
next
  case OpenAuthDialog
  with assms(1) show ?thesis
    by (simp add: step_def automatic_calls_def)
next
  case CancelAuthentication
  with assms(1) show ?thesis
    by (simp add: step_def automatic_calls_def)
next
  case (Settle i out)
  with assms(1) show ?thesis
    by (simp add: step_def automatic_calls_resume hasAutoAuthFailedRef_resume)
      (simp add: automatic_calls_def)
qed

lemma run_after_auto_failure:
  "hasAutoAuthFailedRef s \<Longrightarrow> list_all (\<lambda>e. \<not> is_method_selection e) es \<Longrightarrow>
     hasAutoAuthFailedRef (run s es) \<and> automatic_calls (run s es) = automatic_calls s"
proof (induction es arbitrary: s)
  case Nil
  then show ?case by (simp add: run_def)
next
  case (Cons e es)
  from Cons.prems have e: "\<not> is_method_selection e"
    and es: "list_all (\<lambda>e. \<not> is_method_selection e) es"
    by simp_all
  from step_after_auto_failure [OF Cons.prems(1) e]
  have f: "hasAutoAuthFailedRef (step s e)"
    and c: "automatic_calls (step s e) = automatic_calls s"
    by simp_all
  from Cons.IH [OF f es] c show ?case
    by (simp add: run_def)
qed

lemma auto_failure_sets_flag:
  assumes "i < length (pending s)" and "pending s ! i = AutoFlow m"
  shows "hasAutoAuthFailedRef (step s (Settle i (Rejected msg))) \<and>
         isAuthDialogOpen (step s (Settle i (Rejected msg))) \<and>
         automatic_calls (step s (Settle i (Rejected msg))) = automatic_calls s"
  using assms by (simp add: step_def resume_def automatic_calls_def)

text \<open>
  C3, as the code has it. From any state of the hook in which an automatic attempt is in
  flight: once that attempt fails, \<open>hasAutoAuthFailedRef\<close> is set, and whatever happens
  next (the effect running again, the dialog opened or closed, a cancellation, other
  suspended calls resuming), as long as the user selects no method, \<open>performAuthFlow\<close> is
  never called automatically again and the flag stays set. \<open>handleAuthSelect\<close> with a
  method clears the flag. The flag bounds nothing else: in any state in which the dialog
  is closed, a method is selected, \<open>isAuthenticating\<close> and the user-initiated flag are
  false and the flag is unset, the effect starts an automatic attempt, whatever attempts
  were made before.
\<close>

theorem no_automatic_retry_after_failure:
  assumes "i < length (pending s)" and "pending s ! i = AutoFlow m"
      and "list_all (\<lambda>e. \<not> is_method_selection e) es"
  shows "automatic_calls (run (step s (Settle i (Rejected msg))) es) = automatic_calls s \<and>
         hasAutoAuthFailedRef (run (step s (Settle i (Rejected msg))) es) \<and>
         (truthy authMethod \<longrightarrow>
            \<not> hasAutoAuthFailedRef (step s' (HandleAuthSelect authMethod scope))) \<and>
         (\<not> effect_returns_early s' \<longrightarrow>
            automatic_calls (step s' RunEffect) =
              automatic_calls s' @ [(Automatic, the (selectedAuthType s'))])"
proof -
  have "automatic_calls (run (step s (Settle i (Rejected msg))) es) = automatic_calls s \<and>
         hasAutoAuthFailedRef (run (step s (Settle i (Rejected msg))) es)"
    using auto_failure_sets_flag [OF assms(1,2)] run_after_auto_failure [OF _ assms(3)]
    by metis
  moreover have "\<not> hasAutoAuthFailedRef (step s' (HandleAuthSelect authMethod scope))"
    if "truthy authMethod"
    using that by (simp add: step_def)
  moreover have "automatic_calls (step s' RunEffect) =
      automatic_calls s' @ [(Automatic, the (selectedAuthType s'))]"
    if "\<not> effect_returns_early s'"
    using that by (simp add: step_def automatic_calls_def)
  ultimately show ?thesis by blast
qed

lemma after_auto_start_eq:
  "after_auto_start =
     \<lparr>isAuthDialogOpen = False, isAuthenticating = True, isUserInitiatedAuthRef = False,
      hasAutoAuthFailedRef = False, selectedAuthType = Some ''oauth-personal'',
      authError = None, pending = [AutoFlow ''oauth-personal''],
      performAuthFlow_calls = [(Automatic, ''oauth-personal'')]\<rparr>"
  by (simp add: after_auto_start_def run_def useAuthCommand_def step_def effect_returns_early_def
      truthy_def)

lemma after_success_and_reopen:
  "run (useAuthCommand (Some ''oauth-personal'')) (take 4 success_then_reopen) =
     \<lparr>isAuthDialogOpen = False, isAuthenticating = False, isUserInitiatedAuthRef = False,
      hasAutoAuthFailedRef = False, selectedAuthType = Some ''oauth-personal'',
      authError = None, pending = [],
      performAuthFlow_calls = [(Automatic, ''oauth-personal'')]\<rparr>"
  by (simp add: success_then_reopen_def run_def useAuthCommand_def step_def resume_def
      effect_returns_early_def truthy_def remove_nth_def)

theorem no_automatic_retry_after_failure_witness:
  "0 < length (pending after_auto_start) \<and>
   pending after_auto_start ! 0 = AutoFlow ''oauth-personal'' \<and>
   list_all (\<lambda>e. \<not> is_method_selection e) quiet_events \<and>
   automatic_calls after_auto_start = [(Automatic, ''oauth-personal'')] \<and>
   automatic_calls (run (step after_auto_start (Settle 0 (Rejected ''no network''))) quiet_events) =
     [(Automatic, ''oauth-personal'')] \<and>
   truthy (Some ''api-key'') \<and>
   \<not> hasAutoAuthFailedRef
       (step (run (step after_auto_start (Settle 0 (Rejected ''no network''))) quiet_events)
          (HandleAuthSelect (Some ''api-key'') ''User'')) \<and>
   \<not> effect_returns_early
       (run (useAuthCommand (Some ''oauth-personal'')) (take 4 success_then_reopen)) \<and>
   automatic_calls
       (step (run (useAuthCommand (Some ''oauth-personal'')) (take 4 success_then_reopen))
          RunEffect) =
     [(Automatic, ''oauth-personal''), (Automatic, ''oauth-personal'')]"
proof -
  have a: "0 < length (pending after_auto_start)"
    by (simp add: after_auto_start_eq)
  have b: "pending after_auto_start ! 0 = AutoFlow ''oauth-personal''"
    by (simp add: after_auto_start_eq)
  have c: "list_all (\<lambda>e. \<not> is_method_selection e) quiet_events"
    by (simp add: quiet_events_def is_method_selection_def truthy_def)
  have d: "automatic_calls after_auto_start = [(Automatic, ''oauth-personal'')]"
    by (simp add: after_auto_start_eq automatic_calls_def)
  have e: "truthy (Some ''api-key'')"
    by (simp add: truthy_def)
  have f: "\<not> effect_returns_early
       (run (useAuthCommand (Some ''oauth-personal'')) (take 4 success_then_reopen))"
    by (simp add: after_success_and_reopen effect_returns_early_def truthy_def)
  have g: "automatic_calls
       (run (useAuthCommand (Some ''oauth-personal'')) (take 4 success_then_reopen)) =
     [(Automatic, ''oauth-personal'')]"
    by (simp add: after_success_and_reopen automatic_calls_def)
  have h: "the (selectedAuthType
       (run (useAuthCommand (Some ''oauth-personal'')) (take 4 success_then_reopen))) =
     ''oauth-personal''"
    by (simp add: after_success_and_reopen)
  note t = no_automatic_retry_after_failure [OF a b c, where msg = "''no network''"
      and authMethod = "Some ''api-key''" and scope = "''User''"]
  note t1 = t [where s' = "run (step after_auto_start (Settle 0 (Rejected ''no network'')))
      quiet_events"]
  note t2 = t [where s' = "run (useAuthCommand (Some ''oauth-personal''))
      (take 4 success_then_reopen)"]
  from t1 [THEN conjunct1] t1 [THEN conjunct2, THEN conjunct2, THEN conjunct1, THEN mp, OF e]
       t2 [THEN conjunct2, THEN conjunct2, THEN conjunct2, THEN mp, OF f] a b c d e f
  show ?thesis by (simp add: g h)
qed

text \<open>
  C3, as stated, fails: the automatic attempt is not limited to one per reset of the flag.
  With a pre-selected method and no failure, no method selection and the flag never set,
  the automatic attempt succeeds, the user opens the dialog and closes it, and the effect
  starts a second automatic attempt. Likewise, when the user cancels while the automatic
  attempt is in flight and the effect runs again, a second automatic attempt starts while
  the first is still in flight.
\<close>

theorem automatic_attempt_fires_again:
  "list_all (\<lambda>e. \<not> is_method_selection e) success_then_reopen \<and>
   automatic_calls (run (useAuthCommand (Some ''oauth-personal'')) success_then_reopen) =
     [(Automatic, ''oauth-personal''), (Automatic, ''oauth-personal'')] \<and>
   \<not> hasAutoAuthFailedRef (run (useAuthCommand (Some ''oauth-personal'')) success_then_reopen) \<and>
   authError (run (useAuthCommand (Some ''oauth-personal'')) success_then_reopen) = None \<and>
   list_all (\<lambda>e. \<not> is_method_selection e) cancel_then_effect \<and>
   automatic_calls (run (useAuthCommand (Some ''oauth-personal'')) cancel_then_effect) =
     [(Automatic, ''oauth-personal''), (Automatic, ''oauth-personal'')] \<and>
   in_flight (run (useAuthCommand (Some ''oauth-personal'')) cancel_then_effect) = 2"
  by (simp add: success_then_reopen_def cancel_then_effect_def is_method_selection_def
      run_def useAuthCommand_def step_def resume_def effect_returns_early_def truthy_def
      remove_nth_def automatic_calls_def in_flight_def is_flow_def)

text \<open>
  C2 on \<open>handleAuthSelect\<close>. The callback does not look at \<open>isAuthenticating\<close>: when the
  user selects a method and, while that attempt is in flight and \<open>isAuthenticating\<close> is
  true, selects another one, \<open>performAuthFlow\<close> is called a second time and two attempts
  are in flight at once.
\<close>

theorem second_selection_starts_second_attempt:
  "isAuthenticating (run (useAuthCommand None) (take 2 two_selections)) \<and>
   in_flight (run (useAuthCommand None) (take 2 two_selections)) = 1 \<and>
   pending (run (useAuthCommand None) two_selections) =
     [SelectFlow ''api-key'', SelectFlow ''oauth-personal''] \<and>
   in_flight (run (useAuthCommand None) two_selections) = 2 \<and>
   performAuthFlow_calls (run (useAuthCommand None) two_selections) =
     [(UserInitiated, ''api-key''), (UserInitiated, ''oauth-personal'')]"
  by (simp add: two_selections_def run_def useAuthCommand_def step_def resume_def truthy_def
      remove_nth_def setValue_selectedAuthType_def in_flight_def is_flow_def)

text \<open>
  The same in every state in which \<open>isAuthenticating\<close> is true: a selection, once
  \<open>clearCachedCredentialFile\<close> has resolved, adds one attempt to those in flight. The
  effect, by contrast, starts nothing while \<open>isAuthenticating\<close> is true.
\<close>

lemma selection_while_authenticating:
  assumes "isAuthenticating s" and "truthy m"
  shows "in_flight (run s [HandleAuthSelect m sc, Settle (length (pending s)) Resolved]) =
           Suc (in_flight s)"
  using assms
  by (simp add: run_def step_def resume_def remove_nth_def setValue_selectedAuthType_def
      in_flight_def is_flow_def nth_append)

lemma effect_waits_while_authenticating:
  "isAuthenticating s \<Longrightarrow> step s RunEffect = s"
  by (simp add: step_def effect_returns_early_def)

end
